theory Spec2Isabelle
  imports Complex_Main
begin

section \<open>Data model of \<open>torch/_prims/utils.py\<close>\<close>

text \<open>
  A \<open>torch.dtype\<close>: one of the thirteen values that the source's own tables enumerate
  (\<open>torch.bool\<close>, \<open>_integer_dtypes\<close>, \<open>_float_dtypes\<close>, \<open>_complex_dtypes\<close>;
  the same thirteen appear in \<open>ordered_datatypes\<close>), or any other dtype of the library
  (for example \<open>torch.quint8\<close>), which no table lists and which carries its name.
\<close>

datatype torch_dtype =
    torch_bool
  | torch_uint8 | torch_int8 | torch_int16 | torch_int32 | torch_int64
  | torch_float16 | torch_bfloat16 | torch_float32 | torch_float64
  | torch_complex32 | torch_complex64 | torch_complex128
  | torch_unlisted string

text \<open>The Python types \<open>bool\<close>, \<open>int\<close>, \<open>float\<close>, \<open>complex\<close> (the "type kinds").\<close>

datatype py_type = py_bool | py_int | py_float | py_complex

text \<open>
  A Python number; \<open>Number = (bool, int, float, complex)\<close>. The source only ever takes
  \<open>type(x)\<close> of a number, never its value.
\<close>

datatype number = PyBool bool | PyInt int | PyFloat real | PyComplex complex

fun type_of :: "number \<Rightarrow> py_type" where
  "type_of (PyBool _) = py_bool"
| "type_of (PyInt _) = py_int"
| "type_of (PyFloat _) = py_float"
| "type_of (PyComplex _) = py_complex"

text \<open>\<open>torch.device\<close>: its \<open>type\<close> string and optional \<open>index\<close>.\<close>

record torch_device =
  device_type :: string
  device_index :: "int option"

text \<open>
  What a \<open>TensorLike\<close> (a \<open>torch.Tensor\<close> or a \<open>TensorMeta\<close>) exposes:
  shape, strides, dtype and device.
\<close>

record tensor_like =
  shape :: "int list"
  strides :: "int list"
  dtype :: torch_dtype
  device :: torch_device

definition ndim :: "tensor_like \<Rightarrow> nat" where
  "ndim a = length (shape a)"

text \<open>
  A Python object handed to one of the functions: \<open>None\<close>, a number, a tensor-like,
  a \<open>torch.dtype\<close>, or an object of any other type (carrying the name of its type).
\<close>

datatype py_object =
    PyNone
  | Number number
  | TensorLike tensor_like
  | Dtype torch_dtype
  | Object string

text \<open>
  Exceptions, each with the source's message; a message built with \<open>format\<close> is kept as
  its template, a message built by concatenation as its constant prefix.
\<close>

datatype error =
    AssertionError string
  | ValueError string
  | RuntimeError string
  | KeyError
  | IndexError

text \<open>A \<open>for\<close> loop over a list whose body updates local state and may raise.\<close>

fun for_each :: "('s \<Rightarrow> 'a \<Rightarrow> error + 's) \<Rightarrow> 'a list \<Rightarrow> 's \<Rightarrow> error + 's" where
  "for_each body [] s = Inr s"
| "for_each body (x # xs) s =
     (case body s x of Inl e \<Rightarrow> Inl e | Inr s' \<Rightarrow> for_each body xs s')"

text \<open>Sequencing of two computations that may raise.\<close>

definition and_then :: "error + 'a \<Rightarrow> ('a \<Rightarrow> error + 'b) \<Rightarrow> error + 'b" where
  "and_then m f = (case m of Inl e \<Rightarrow> Inl e | Inr v \<Rightarrow> f v)"

text \<open>A dictionary subscript \<open>m[k]\<close>, which raises \<open>KeyError\<close> on a missing key.\<close>

definition subscript :: "('k \<times> 'v) list \<Rightarrow> 'k \<Rightarrow> error + 'v" where
  "subscript m k = (case map_of m k of None \<Rightarrow> Inl KeyError | Some v \<Rightarrow> Inr v)"

section \<open>Dtype classification\<close>

definition integer_dtypes :: "torch_dtype list" where
  "integer_dtypes = [torch_uint8, torch_int8, torch_int16, torch_int32, torch_int64]"

definition float_dtypes :: "torch_dtype list" where
  "float_dtypes = [torch_float16, torch_bfloat16, torch_float32, torch_float64]"

definition complex_dtypes :: "torch_dtype list" where
  "complex_dtypes = [torch_complex32, torch_complex64, torch_complex128]"

definition is_boolean_dtype :: "torch_dtype \<Rightarrow> bool" where
  "is_boolean_dtype d = (d = torch_bool)"

definition is_integer_dtype :: "torch_dtype \<Rightarrow> bool" where
  "is_integer_dtype d = (d \<in> set integer_dtypes)"

definition is_float_dtype :: "torch_dtype \<Rightarrow> bool" where
  "is_float_dtype d = (d \<in> set float_dtypes)"

definition is_complex_dtype :: "torch_dtype \<Rightarrow> bool" where
  "is_complex_dtype d = (d \<in> set complex_dtypes)"

definition complex_to_real_dtype_map :: "(torch_dtype \<times> torch_dtype) list" where
  "complex_to_real_dtype_map =
     [(torch_complex128, torch_float64),
      (torch_complex64, torch_float32),
      (torch_complex32, torch_float16)]"

definition real_to_complex_dtype_map :: "(torch_dtype \<times> torch_dtype) list" where
  "real_to_complex_dtype_map =
     [(torch_float16, torch_complex32),
      (torch_bfloat16, torch_complex64),
      (torch_float32, torch_complex64),
      (torch_float64, torch_complex128)]"

definition corresponding_real_dtype :: "torch_dtype \<Rightarrow> error + torch_dtype" where
  "corresponding_real_dtype d = subscript complex_to_real_dtype_map d"

definition corresponding_complex_dtype :: "torch_dtype \<Rightarrow> error + torch_dtype" where
  "corresponding_complex_dtype d = subscript real_to_complex_dtype_map d"

definition dtype_to_type :: "torch_dtype \<Rightarrow> error + py_type" where
  "dtype_to_type d =
     (if d = torch_bool then Inr py_bool
      else if d \<in> set integer_dtypes then Inr py_int
      else if d \<in> set float_dtypes then Inr py_float
      else if d \<in> set complex_dtypes then Inr py_complex
      else Inl (ValueError ''Invalid dtype!''))"

definition type_to_dtype_map :: "(py_type \<times> torch_dtype) list" where
  "type_to_dtype_map =
     [(py_bool, torch_bool),
      (py_int, torch_int64),
      (py_float, torch_float64),
      (py_complex, torch_complex128)]"

definition type_to_dtype :: "py_type \<Rightarrow> error + torch_dtype" where
  "type_to_dtype typ = subscript type_to_dtype_map typ"

text \<open>
  The process-wide default dtype, which \<open>torch.get_default_dtype()\<close> reads. It is state
  outside this file, so the functions that read it take it as an argument.
\<close>

record torch_config =
  default_dtype :: torch_dtype

definition get_default_dtype :: "torch_config \<Rightarrow> torch_dtype" where
  "get_default_dtype cfg = default_dtype cfg"

definition ordered_types :: "py_type list" where
  "ordered_types = [py_bool, py_int, py_float, py_complex]"

fun get_higher_type_scan :: "py_type list \<Rightarrow> py_type \<Rightarrow> py_type \<Rightarrow> error + py_type" where
  "get_higher_type_scan [] a b = Inl (ValueError ''Unknown Python scalar type!'')"
| "get_higher_type_scan (typ # typs) a b =
     (if a = typ then Inr b
      else if b = typ then Inr a
      else get_higher_type_scan typs a b)"

definition get_higher_type :: "py_type \<Rightarrow> py_type \<Rightarrow> error + py_type" where
  "get_higher_type a b =
     (if a \<notin> set ordered_types then Inl (AssertionError [])
      else if b \<notin> set ordered_types then Inl (AssertionError [])
      else if a = b then Inr a
      else get_higher_type_scan ordered_types a b)"

text \<open>
  \<open>get_higher_dtype\<close>: the nested \<open>_extract_dtype\<close>, the table \<open>ordered_datatypes\<close> and the
  loop over \<open>enumerate(ordered_datatypes)\<close>, whose first branch reads
  \<open>ordered_datatypes[idx + 1][0]\<close>.
\<close>

definition is_dtype_tensor_or_number :: "py_object \<Rightarrow> bool" where
  "is_dtype_tensor_or_number x =
     (case x of Dtype _ \<Rightarrow> True | TensorLike _ \<Rightarrow> True | Number _ \<Rightarrow> True | _ \<Rightarrow> False)"

fun extract_dtype :: "py_object \<Rightarrow> error + torch_dtype option" where
  "extract_dtype PyNone = Inr None"
| "extract_dtype (Dtype d) = Inr (Some d)"
| "extract_dtype (TensorLike t) = Inr (Some (dtype t))"
| "extract_dtype (Number n) = and_then (type_to_dtype (type_of n)) (\<lambda>d. Inr (Some d))"
| "extract_dtype (Object _) = Inl (RuntimeError ''Unexpected type given to _extract_dtype!'')"

definition ordered_datatypes :: "torch_dtype list list" where
  "ordered_datatypes =
     [[torch_bool],
      [torch_uint8, torch_int8],
      [torch_int16],
      [torch_int32],
      [torch_int64],
      [torch_float16, torch_bfloat16],
      [torch_float32],
      [torch_float64],
      [torch_complex32],
      [torch_complex64],
      [torch_complex128]]"

definition first_of_bucket :: "nat \<Rightarrow> error + torch_dtype" where
  "first_of_bucket i =
     (if i < length ordered_datatypes
      then (case ordered_datatypes ! i of [] \<Rightarrow> Inl IndexError | d # _ \<Rightarrow> Inr d)
      else Inl IndexError)"

fun get_higher_dtype_scan ::
  "nat \<Rightarrow> torch_dtype list list \<Rightarrow> torch_dtype \<Rightarrow> torch_dtype \<Rightarrow> error + torch_dtype" where
  "get_higher_dtype_scan idx [] a b = Inl (RuntimeError ''Unexpected termination!'')"
| "get_higher_dtype_scan idx (dtypes # rest) a b =
     (if a \<in> set dtypes \<and> b \<in> set dtypes then first_of_bucket (idx + 1)
      else if a \<in> set dtypes then Inr b
      else if b \<in> set dtypes then Inr a
      else get_higher_dtype_scan (idx + 1) rest a b)"

definition get_higher_dtype :: "py_object \<Rightarrow> py_object \<Rightarrow> error + torch_dtype option" where
  "get_higher_dtype a b =
     (if \<not> (a = PyNone \<or> is_dtype_tensor_or_number a) then Inl (AssertionError [])
      else if \<not> (b = PyNone \<or> is_dtype_tensor_or_number b) then Inl (AssertionError [])
      else
        and_then (extract_dtype a) (\<lambda>a'.
        and_then (extract_dtype b) (\<lambda>b'.
          if a' = b' then Inr a'
          else (case a' of None \<Rightarrow> Inr b'
          | Some da \<Rightarrow> (case b' of None \<Rightarrow> Inr a'
          | Some db \<Rightarrow>
              and_then (get_higher_dtype_scan 0 ordered_datatypes da db)
                (\<lambda>d. Inr (Some d)))))))"

definition can_safe_cast_to_fns :: "(torch_dtype \<Rightarrow> bool) list" where
  "can_safe_cast_to_fns = [is_complex_dtype, is_float_dtype, is_integer_dtype, is_boolean_dtype]"

fun can_safe_cast_to_scan ::
  "(torch_dtype \<Rightarrow> bool) list \<Rightarrow> torch_dtype \<Rightarrow> torch_dtype \<Rightarrow> error + bool" where
  "can_safe_cast_to_scan [] cast_to cast_from =
     Inl (ValueError ''Received unknown dtypes {0}, {1}!'')"
| "can_safe_cast_to_scan (fn # fns) cast_to cast_from =
     (if fn cast_to then Inr True
      else if fn cast_from then Inr False
      else can_safe_cast_to_scan fns cast_to cast_from)"

definition can_safe_cast_to :: "torch_dtype \<Rightarrow> torch_dtype \<Rightarrow> error + bool" where
  "can_safe_cast_to cast_to cast_from =
     can_safe_cast_to_scan can_safe_cast_to_fns cast_to cast_from"

section \<open>Shape utilities\<close>

definition canonicalize_dim :: "int \<Rightarrow> int \<Rightarrow> error + int" where
  "canonicalize_dim rank idx =
     (let rank' = (if rank \<noteq> 0 then rank else 1) in
      if idx \<ge> 0 \<and> idx < rank' then Inr idx
      else
        let idx' = (if idx < 0 then idx + rank' else idx) in
        if idx' < 0 \<or> idx' > rank'
        then Inl (ValueError ''Received out of bounds index {0} for tensor of rank {1}!'')
        else Inr idx')"

section \<open>Tensor metadata comparison\<close>

fun compare_shapes :: "(int \<times> int) list \<Rightarrow> error + unit" where
  "compare_shapes [] = Inr ()"
| "compare_shapes ((x, y) # rest) =
     (if x \<noteq> y then Inl (AssertionError ''Shapes {0} and {1} are not equal!'')
      else compare_shapes rest)"

definition compare_tensor_meta :: "py_object \<Rightarrow> py_object \<Rightarrow> error + unit" where
  "compare_tensor_meta a b =
     (case a of
        TensorLike ta \<Rightarrow>
          (case b of
             TensorLike tb \<Rightarrow>
               and_then (compare_shapes (zip (shape ta) (shape tb))) (\<lambda>_.
                 if dtype ta \<noteq> dtype tb
                 then Inl (AssertionError ''Dtypes {0} and {1} are not equal!'')
                 else if device ta \<noteq> device tb
                 then Inl (AssertionError ''Devices {0} and {1} are not equal!'')
                 else Inr ())
           | _ \<Rightarrow> Inl (AssertionError []))
      | _ \<Rightarrow> Inl (AssertionError []))"

section \<open>Operand compatibility checks\<close>

definition is_cpu_scalar_tensor :: "py_object \<Rightarrow> bool" where
  "is_cpu_scalar_tensor a =
     (case a of
        TensorLike t \<Rightarrow> ndim t = 0 \<and> device_type (device t) = ''cpu''
      | _ \<Rightarrow> False)"

text \<open>
  The body of the loop of \<open>check_same_device\<close>; the state is the local variable
  \<open>device\<close> (\<open>None\<close> until the first tensor that is not exempt).
\<close>

fun check_same_device_body ::
  "bool \<Rightarrow> torch_device option \<Rightarrow> py_object \<Rightarrow> error + torch_device option" where
  "check_same_device_body allow_cpu_scalar_tensors dev (Number n) = Inr dev"
| "check_same_device_body allow_cpu_scalar_tensors dev (TensorLike t) =
     (if allow_cpu_scalar_tensors \<and> is_cpu_scalar_tensor (TensorLike t) then Inr dev
      else
        let dev' = (case dev of None \<Rightarrow> device t | Some d \<Rightarrow> d) in
        if dev' \<noteq> device t then Inl (RuntimeError ''Tensor on device '')
        else Inr (Some dev'))"
| "check_same_device_body allow_cpu_scalar_tensors dev x =
     Inl (RuntimeError ''Unexpected type when checking for same device, '')"

definition check_same_device :: "py_object list \<Rightarrow> bool \<Rightarrow> error + unit" where
  "check_same_device args allow_cpu_scalar_tensors =
     (if length args \<le> 1 then Inr ()
      else and_then (for_each (check_same_device_body allow_cpu_scalar_tensors) args None)
             (\<lambda>_. Inr ()))"

text \<open>
  The body of the loop of \<open>check_same_dtype\<close>; the state is the pair of local variables
  \<open>full_dtype\<close> and \<open>scalar_type\<close>.
\<close>

fun check_same_dtype_body ::
  "torch_dtype option \<times> py_type option \<Rightarrow> py_object
     \<Rightarrow> error + (torch_dtype option \<times> py_type option)" where
  "check_same_dtype_body (full_dtype, scalar_type) (Number n) = Inr (full_dtype, scalar_type)"
| "check_same_dtype_body (full_dtype, scalar_type) (TensorLike t) =
     (let full_dtype' = (case full_dtype of None \<Rightarrow> dtype t | Some d \<Rightarrow> d) in
      and_then (case scalar_type of None \<Rightarrow> dtype_to_type (dtype t) | Some s \<Rightarrow> Inr s)
        (\<lambda>scalar_type'.
           if full_dtype' \<noteq> dtype t then Inl (RuntimeError ''Tensor with dtype '')
           else
             and_then (dtype_to_type (dtype t)) (\<lambda>arg_type.
               if arg_type \<noteq> scalar_type'
               then Inl (RuntimeError ''Tensor with corresponding Python type '')
               else Inr (Some full_dtype', Some scalar_type'))))"
| "check_same_dtype_body (full_dtype, scalar_type) x =
     Inl (RuntimeError ''Unexpected type when checking for same dtype, '')"

definition check_same_dtype :: "py_object list \<Rightarrow> error + unit" where
  "check_same_dtype args =
     and_then (for_each check_same_dtype_body args (None, None)) (\<lambda>_. Inr ())"

section \<open>Elementwise type promotion\<close>

definition computation_dtype_map :: "(torch_dtype \<times> torch_dtype) list" where
  "computation_dtype_map =
     [(torch_bfloat16, torch_float32),
      (torch_float16, torch_float32),
      (torch_complex32, torch_complex64)]"

definition get_computation_dtype :: "torch_dtype \<Rightarrow> torch_dtype" where
  "get_computation_dtype d = (case map_of computation_dtype_map d of None \<Rightarrow> d | Some c \<Rightarrow> c)"

datatype ELEMENTWISE_TYPE_PROMOTION_KIND =
    DEFAULT | INT_TO_FLOAT | ALWAYS_BOOL | OP_MATH | COMPLEX_TO_FLOAT | BOOL_TO_LONG

text \<open>The first loop of \<open>elementwise_dtypes\<close>; the state is \<open>highest_type\<close>.\<close>

fun highest_type_body :: "py_type \<Rightarrow> py_object \<Rightarrow> error + py_type" where
  "highest_type_body highest_type (Number n) = get_higher_type highest_type (type_of n)"
| "highest_type_body highest_type (TensorLike t) =
     and_then (dtype_to_type (dtype t)) (\<lambda>typ. get_higher_type highest_type typ)"
| "highest_type_body highest_type x =
     Inl (ValueError ''Unexpected type {0} when computing elementwise type promotion!'')"

definition highest_type_of :: "py_object list \<Rightarrow> error + py_type" where
  "highest_type_of args = for_each highest_type_body args py_bool"

text \<open>
  The accumulators of \<open>_find_highest_dtype_filtered\<close> hold \<open>None\<close> or a dtype and are
  passed to \<open>get_higher_dtype\<close> as they are.
\<close>

definition of_optional :: "torch_dtype option \<Rightarrow> py_object" where
  "of_optional x = (case x of None \<Rightarrow> PyNone | Some d \<Rightarrow> Dtype d)"

text \<open>
  The body of the loop of \<open>_find_highest_dtype_filtered\<close>; the state is the pair
  \<open>(zero_dim_tensor_dtype, one_plus_dim_tensor_dtype)\<close>.
\<close>

fun find_highest_dtype_filtered_body ::
  "(torch_dtype \<Rightarrow> bool) \<Rightarrow> bool \<Rightarrow> bool \<Rightarrow> torch_dtype option \<times> torch_dtype option
     \<Rightarrow> py_object \<Rightarrow> error + (torch_dtype option \<times> torch_dtype option)" where
  "find_highest_dtype_filtered_body filter_fn float_as_complex all_tensors_equal
     (zero_dim_tensor_dtype, one_plus_dim_tensor_dtype) (TensorLike x) =
     (if filter_fn (dtype x) then
        and_then
          (if float_as_complex \<and> is_float_dtype (dtype x)
           then corresponding_complex_dtype (dtype x) else Inr (dtype x))
          (\<lambda>d.
             if ndim x = 0 \<and> \<not> all_tensors_equal then
               and_then (get_higher_dtype (of_optional zero_dim_tensor_dtype) (Dtype d))
                 (\<lambda>z. Inr (z, one_plus_dim_tensor_dtype))
             else
               and_then (get_higher_dtype (of_optional one_plus_dim_tensor_dtype) (Dtype d))
                 (\<lambda>p. Inr (zero_dim_tensor_dtype, p)))
      else Inr (zero_dim_tensor_dtype, one_plus_dim_tensor_dtype))"
| "find_highest_dtype_filtered_body filter_fn float_as_complex all_tensors_equal st x = Inr st"

definition find_highest_dtype_filtered ::
  "py_object list \<Rightarrow> (torch_dtype \<Rightarrow> bool) \<Rightarrow> bool \<Rightarrow> bool \<Rightarrow> error + torch_dtype option" where
  "find_highest_dtype_filtered args filter_fn float_as_complex all_tensors_equal =
     and_then
       (for_each (find_highest_dtype_filtered_body filter_fn float_as_complex all_tensors_equal)
          args (None, None))
       (\<lambda>(zero_dim_tensor_dtype, one_plus_dim_tensor_dtype).
          if one_plus_dim_tensor_dtype \<noteq> None then Inr one_plus_dim_tensor_dtype
          else Inr zero_dim_tensor_dtype)"

fun has_one_plus_dim_complex_tensor :: "py_object list \<Rightarrow> bool" where
  "has_one_plus_dim_complex_tensor [] = False"
| "has_one_plus_dim_complex_tensor (TensorLike x # rest) =
     (if ndim x > 0 \<and> is_complex_dtype (dtype x) then True
      else has_one_plus_dim_complex_tensor rest)"
| "has_one_plus_dim_complex_tensor (x # rest) = has_one_plus_dim_complex_tensor rest"

text \<open>
  The value of the local variable \<open>result_dtype\<close> of \<open>elementwise_dtypes\<close> when the
  dispatch on \<open>type_promotion_kind\<close> begins; \<open>args\<close> is \<open>_args\<close> without its \<open>None\<close>s.
\<close>

definition elementwise_result_dtype :: "torch_config \<Rightarrow> py_object list \<Rightarrow> error + torch_dtype" where
  "elementwise_result_dtype cfg args' =
     (let args = filter (\<lambda>x. x \<noteq> PyNone) args' in
      and_then (highest_type_of args) (\<lambda>highest_type.
        if highest_type = py_float then
          and_then (find_highest_dtype_filtered args is_float_dtype False False) (\<lambda>r.
            Inr (case r of None \<Rightarrow> get_default_dtype cfg | Some d \<Rightarrow> d))
        else if highest_type = py_complex then
          and_then
            (if has_one_plus_dim_complex_tensor args
             then find_highest_dtype_filtered args
                    (\<lambda>x. is_float_dtype x \<or> is_complex_dtype x) True False
             else find_highest_dtype_filtered args
                    (\<lambda>x. is_float_dtype x \<or> is_complex_dtype x) True True)
            (\<lambda>r. case r of
                    None \<Rightarrow> corresponding_complex_dtype (get_default_dtype cfg)
                  | Some d \<Rightarrow> Inr d)
        else if highest_type = py_int then
          and_then (find_highest_dtype_filtered args is_integer_dtype False False) (\<lambda>r.
            Inr (case r of None \<Rightarrow> torch_int64 | Some d \<Rightarrow> d))
        else Inr torch_bool))"

text \<open>The dispatch on \<open>type_promotion_kind\<close> that ends \<open>elementwise_dtypes\<close>.\<close>

definition apply_type_promotion_kind ::
  "torch_config \<Rightarrow> ELEMENTWISE_TYPE_PROMOTION_KIND \<Rightarrow> torch_dtype
     \<Rightarrow> error + (torch_dtype \<times> torch_dtype)" where
  "apply_type_promotion_kind cfg type_promotion_kind result_dtype =
     (if type_promotion_kind = DEFAULT then Inr (result_dtype, result_dtype)
      else if type_promotion_kind = OP_MATH then
        Inr (get_computation_dtype result_dtype, result_dtype)
      else if type_promotion_kind = INT_TO_FLOAT then
        (let result_dtype' =
           (if is_integer_dtype result_dtype \<or> is_boolean_dtype result_dtype
            then get_default_dtype cfg else result_dtype)
         in Inr (get_computation_dtype result_dtype', result_dtype'))
      else if type_promotion_kind = COMPLEX_TO_FLOAT then
        (if is_complex_dtype result_dtype then
           and_then (corresponding_real_dtype result_dtype) (\<lambda>r.
             Inr (get_computation_dtype result_dtype, r))
         else Inr (get_computation_dtype result_dtype, result_dtype))
      else if type_promotion_kind = BOOL_TO_LONG then
        (if is_boolean_dtype result_dtype then Inr (torch_int64, torch_int64)
         else Inr (result_dtype, result_dtype))
      else if type_promotion_kind = ALWAYS_BOOL then Inr (result_dtype, torch_bool)
      else Inl (ValueError ''Unknown type promotion kind {0}''))"

definition elementwise_dtypes ::
  "torch_config \<Rightarrow> py_object list \<Rightarrow> ELEMENTWISE_TYPE_PROMOTION_KIND
     \<Rightarrow> error + (torch_dtype \<times> torch_dtype)" where
  "elementwise_dtypes cfg args type_promotion_kind =
     and_then (elementwise_result_dtype cfg args)
       (apply_type_promotion_kind cfg type_promotion_kind)"

section \<open>Notions used to state the properties\<close>

text \<open>
  A recognized dtype is one that belongs to one of the four categories; these are the
  thirteen dtypes of the tables.
\<close>

definition recognized_dtype :: "torch_dtype \<Rightarrow> bool" where
  "recognized_dtype d =
     (is_boolean_dtype d \<or> is_integer_dtype d \<or> is_float_dtype d \<or> is_complex_dtype d)"

text \<open>
  The category of a recognized dtype, and the order \<open>bool < int < float < complex\<close>.
\<close>

definition dtype_category :: "torch_dtype \<Rightarrow> py_type" where
  "dtype_category d =
     (if is_complex_dtype d then py_complex
      else if is_float_dtype d then py_float
      else if is_integer_dtype d then py_int
      else py_bool)"

fun category_rank :: "py_type \<Rightarrow> nat" where
  "category_rank py_bool = 0"
| "category_rank py_int = 1"
| "category_rank py_float = 2"
| "category_rank py_complex = 3"

text \<open>
  The position of a dtype's bucket in the eleven-bucket order, and the higher of two
  dtypes in that order: the dtype itself when both are equal, the first dtype of the next
  bucket when they differ inside one bucket, and otherwise the one in the later bucket.
\<close>

definition bucket_of :: "torch_dtype \<Rightarrow> nat" where
  "bucket_of d = length (takeWhile (\<lambda>dtypes. d \<notin> set dtypes) ordered_datatypes)"

definition higher_dtype :: "torch_dtype \<Rightarrow> torch_dtype \<Rightarrow> torch_dtype" where
  "higher_dtype d1 d2 =
     (if d1 = d2 then d1
      else if bucket_of d1 = bucket_of d2 then hd (ordered_datatypes ! Suc (bucket_of d1))
      else if bucket_of d1 < bucket_of d2 then d2
      else d1)"

text \<open>The highest dtype of a list, taken from left to right; \<open>None\<close> for the empty list.\<close>

definition highest_dtype :: "torch_dtype list \<Rightarrow> torch_dtype option" where
  "highest_dtype ds =
     foldl (\<lambda>acc d. Some (case acc of None \<Rightarrow> d | Some a \<Rightarrow> higher_dtype a d)) None ds"

text \<open>
  The "corresponding complex dtypes" of the docstring of \<open>elementwise_dtypes\<close>: a float
  dtype goes to its complex dtype, a complex dtype stays.
\<close>

fun as_complex_dtype :: "torch_dtype \<Rightarrow> torch_dtype" where
  "as_complex_dtype torch_float16 = torch_complex32"
| "as_complex_dtype torch_bfloat16 = torch_complex64"
| "as_complex_dtype torch_float32 = torch_complex64"
| "as_complex_dtype torch_float64 = torch_complex128"
| "as_complex_dtype d = d"

text \<open>The tensor-likes of an argument list, in order.\<close>

fun tensors_of :: "py_object list \<Rightarrow> tensor_like list" where
  "tensors_of [] = []"
| "tensors_of (TensorLike t # xs) = t # tensors_of xs"
| "tensors_of (x # xs) = tensors_of xs"

definition float_or_complex_tensors :: "py_object list \<Rightarrow> tensor_like list" where
  "float_or_complex_tensors args =
     filter (\<lambda>t. is_float_dtype (dtype t) \<or> is_complex_dtype (dtype t)) (tensors_of args)"

text \<open>
  The two scans of the complex branch over the float-or-complex tensors: the first prefers
  the tensors of rank above zero and falls back to those of rank zero, the second ignores
  the rank.
\<close>

definition scan_preferring_rank :: "tensor_like list \<Rightarrow> torch_dtype option" where
  "scan_preferring_rank ts =
     (case highest_dtype (map (\<lambda>t. as_complex_dtype (dtype t)) (filter (\<lambda>t. 0 < ndim t) ts)) of
        Some d \<Rightarrow> Some d
      | None \<Rightarrow>
          highest_dtype (map (\<lambda>t. as_complex_dtype (dtype t)) (filter (\<lambda>t. ndim t = 0) ts)))"

definition scan_ignoring_rank :: "tensor_like list \<Rightarrow> torch_dtype option" where
  "scan_ignoring_rank ts = highest_dtype (map (\<lambda>t. as_complex_dtype (dtype t)) ts)"

text \<open>What the operand checks accept, and the tensors they do not exempt.\<close>

definition is_number :: "py_object \<Rightarrow> bool" where
  "is_number x = (case x of Number _ \<Rightarrow> True | _ \<Rightarrow> False)"

definition is_number_or_tensor :: "py_object \<Rightarrow> bool" where
  "is_number_or_tensor x = (case x of Number _ \<Rightarrow> True | TensorLike _ \<Rightarrow> True | _ \<Rightarrow> False)"

definition non_exempt_tensors :: "bool \<Rightarrow> py_object list \<Rightarrow> tensor_like list" where
  "non_exempt_tensors allow_cpu_scalar_tensors args =
     filter (\<lambda>t. \<not> (allow_cpu_scalar_tensors \<and> is_cpu_scalar_tensor (TensorLike t)))
       (tensors_of args)"

section \<open>Shared facts about the tables\<close>

lemmas dtype_table_defs =
  is_boolean_dtype_def is_integer_dtype_def is_float_dtype_def is_complex_dtype_def
  integer_dtypes_def float_dtypes_def complex_dtypes_def

lemma dtype_to_type_category:
  "recognized_dtype d \<Longrightarrow> dtype_to_type d = Inr (dtype_category d)"
  by (cases d)
     (simp_all add: dtype_to_type_def dtype_category_def recognized_dtype_def dtype_table_defs)

lemma dtype_to_type_unrecognized:
  "\<not> recognized_dtype d \<Longrightarrow> dtype_to_type d = Inl (ValueError ''Invalid dtype!'')"
  by (cases d) (simp_all add: dtype_to_type_def recognized_dtype_def dtype_table_defs)

lemma recognized_dtype_iff_listed:
  "recognized_dtype d \<longleftrightarrow> (\<forall>name. d \<noteq> torch_unlisted name)"
  by (cases d) (simp_all add: recognized_dtype_def dtype_table_defs)

lemma recognized_dtype_iff_bucket:
  "recognized_dtype d \<longleftrightarrow> d \<in> set (concat ordered_datatypes)"
  by (cases d) (simp_all add: recognized_dtype_def dtype_table_defs ordered_datatypes_def)

lemma bucket_of_simps:
  "bucket_of torch_bool = 0" "bucket_of torch_uint8 = 1" "bucket_of torch_int8 = 1"
  "bucket_of torch_int16 = 2" "bucket_of torch_int32 = 3" "bucket_of torch_int64 = 4"
  "bucket_of torch_float16 = 5" "bucket_of torch_bfloat16 = 5" "bucket_of torch_float32 = 6"
  "bucket_of torch_float64 = 7" "bucket_of torch_complex32 = 8" "bucket_of torch_complex64 = 9"
  "bucket_of torch_complex128 = 10"
  by (simp_all add: bucket_of_def ordered_datatypes_def)

lemma get_higher_dtype_scan_higher:
  "a \<noteq> b \<Longrightarrow> recognized_dtype a \<Longrightarrow> recognized_dtype b \<Longrightarrow>
     get_higher_dtype_scan 0 ordered_datatypes a b = Inr (higher_dtype a b)"
  by (cases a; cases b)
     (simp_all add: higher_dtype_def bucket_of_simps recognized_dtype_def dtype_table_defs,
      simp_all add: ordered_datatypes_def first_of_bucket_def)

lemma extract_dtype_SomeD:
  "extract_dtype x = Inr (Some d) \<Longrightarrow> x \<noteq> PyNone \<and> is_dtype_tensor_or_number x"
  by (cases x) (simp_all add: is_dtype_tensor_or_number_def)

lemma get_higher_dtype_extracted:
  assumes "extract_dtype a = Inr (Some d1)" and "extract_dtype b = Inr (Some d2)"
    and "recognized_dtype d1" and "recognized_dtype d2"
  shows "get_higher_dtype a b = Inr (Some (higher_dtype d1 d2))"
proof (cases "d1 = d2")
  case True
  with assms extract_dtype_SomeD [OF assms(1)] extract_dtype_SomeD [OF assms(2)]
  show ?thesis by (simp add: get_higher_dtype_def and_then_def higher_dtype_def)
next
  case False
  with assms extract_dtype_SomeD [OF assms(1)] extract_dtype_SomeD [OF assms(2)]
  show ?thesis
    by (simp add: get_higher_dtype_def and_then_def get_higher_dtype_scan_higher)
qed

lemma get_higher_dtype_absent:
  assumes "extract_dtype x = Inr (Some d)"
  shows "get_higher_dtype PyNone x = Inr (Some d)" and "get_higher_dtype x PyNone = Inr (Some d)"
  using assms extract_dtype_SomeD [OF assms]
  by (simp_all add: get_higher_dtype_def and_then_def)

lemma same_bucket_cases:
  "d1 \<noteq> d2 \<Longrightarrow> bucket_of d1 = bucket_of d2 \<Longrightarrow>
   recognized_dtype d1 \<Longrightarrow> recognized_dtype d2 \<Longrightarrow>
     {d1, d2} = {torch_uint8, torch_int8} \<or> {d1, d2} = {torch_float16, torch_bfloat16}"
  by (cases d1; cases d2)
     (simp_all add: bucket_of_simps recognized_dtype_def dtype_table_defs, auto)

section \<open>Shared facts about the loops\<close>

lemma compare_shapes_common_prefix:
  "take (min (length xs) (length ys)) xs = take (min (length xs) (length ys)) ys
     \<Longrightarrow> compare_shapes (zip xs ys) = Inr ()"
proof (induction xs arbitrary: ys)
  case Nil
  show ?case by simp
next
  case (Cons x xs)
  show ?case
  proof (cases ys)
    case Nil
    then show ?thesis by simp
  next
    case (Cons y ys')
    with Cons.prems have "x = y"
      and "take (min (length xs) (length ys')) xs = take (min (length xs) (length ys')) ys'"
      by simp_all
    with Cons.IH [of ys'] Cons show ?thesis by simp
  qed
qed

lemma non_exempt_Cons_simps:
  "non_exempt_tensors allow (Number n # xs) = non_exempt_tensors allow xs"
  "non_exempt_tensors allow (PyNone # xs) = non_exempt_tensors allow xs"
  "non_exempt_tensors allow (Dtype d # xs) = non_exempt_tensors allow xs"
  "non_exempt_tensors allow (Object s # xs) = non_exempt_tensors allow xs"
  "non_exempt_tensors allow (TensorLike t # xs) =
     (if allow \<and> is_cpu_scalar_tensor (TensorLike t) then non_exempt_tensors allow xs
      else t # non_exempt_tensors allow xs)"
  by (simp_all add: non_exempt_tensors_def)

lemma is_number_or_tensor_simps:
  "is_number_or_tensor (Number n)" "is_number_or_tensor (TensorLike t)"
  "\<not> is_number_or_tensor PyNone" "\<not> is_number_or_tensor (Dtype d)"
  "\<not> is_number_or_tensor (Object s)"
  by (simp_all add: is_number_or_tensor_def)

lemma check_same_device_loop_expected:
  "isl (for_each (check_same_device_body allow) args (Some dev)) \<longleftrightarrow>
     (\<exists>x\<in>set args. \<not> is_number_or_tensor x)
     \<or> (\<exists>t\<in>set (non_exempt_tensors allow args). device t \<noteq> dev)"
proof (induction args)
  case Nil
  show ?case by (simp add: non_exempt_tensors_def)
next
  case (Cons x xs)
  show ?case
  proof (cases x)
    case (TensorLike t)
    with Cons.IH show ?thesis
      by (auto simp: non_exempt_Cons_simps is_number_or_tensor_simps)
  qed (use Cons.IH in \<open>simp_all add: non_exempt_Cons_simps is_number_or_tensor_simps\<close>)
qed

lemma check_same_device_loop_start:
  "isl (for_each (check_same_device_body allow) args None) \<longleftrightarrow>
     (\<exists>x\<in>set args. \<not> is_number_or_tensor x)
     \<or> (\<exists>t\<in>set (non_exempt_tensors allow args).
           device t \<noteq> device (hd (non_exempt_tensors allow args)))"
proof (induction args)
  case Nil
  show ?case by (simp add: non_exempt_tensors_def)
next
  case (Cons x xs)
  show ?case
  proof (cases x)
    case (TensorLike t)
    show ?thesis
    proof (cases "allow \<and> is_cpu_scalar_tensor (TensorLike t)")
      case True
      with TensorLike Cons.IH show ?thesis
        by (simp add: non_exempt_Cons_simps is_number_or_tensor_simps)
    next
      case False
      with TensorLike check_same_device_loop_expected [of allow xs "device t"] show ?thesis
        by (auto simp: non_exempt_Cons_simps is_number_or_tensor_simps)
    qed
  qed (use Cons.IH in \<open>simp_all add: non_exempt_Cons_simps is_number_or_tensor_simps\<close>)
qed

lemma check_same_dtype_loop_expected:
  "recognized_dtype d \<Longrightarrow>
   isl (for_each check_same_dtype_body args (Some d, Some (dtype_category d))) \<longleftrightarrow>
     (\<exists>x\<in>set args. \<not> is_number_or_tensor x) \<or> (\<exists>t\<in>set (tensors_of args). dtype t \<noteq> d)"
proof (induction args)
  case Nil
  show ?case by simp
next
  case (Cons x xs)
  show ?case
  proof (cases x)
    case (TensorLike t)
    with Cons show ?thesis
      by (auto simp: is_number_or_tensor_simps and_then_def dtype_to_type_category Let_def)
  qed (use Cons in \<open>simp_all add: is_number_or_tensor_simps\<close>)
qed

lemma check_same_dtype_loop_start:
  "isl (for_each check_same_dtype_body args (None, None)) \<longleftrightarrow>
     (\<exists>x\<in>set args. \<not> is_number_or_tensor x)
     \<or> (\<exists>t\<in>set (tensors_of args). dtype t \<noteq> dtype (hd (tensors_of args)))
     \<or> (tensors_of args \<noteq> [] \<and> \<not> recognized_dtype (dtype (hd (tensors_of args))))"
proof (induction args)
  case Nil
  show ?case by simp
next
  case (Cons x xs)
  show ?case
  proof (cases x)
    case (TensorLike t)
    show ?thesis
    proof (cases "recognized_dtype (dtype t)")
      case True
      with TensorLike check_same_dtype_loop_expected [of "dtype t" xs] show ?thesis
        by (simp add: is_number_or_tensor_simps and_then_def dtype_to_type_category Let_def)
    next
      case False
      with TensorLike show ?thesis
        by (simp add: and_then_def dtype_to_type_unrecognized Let_def)
    qed
  qed (use Cons.IH in \<open>simp_all add: is_number_or_tensor_simps\<close>)
qed

lemma check_same_dtype_loop_skips_numbers:
  "for_each check_same_dtype_body (filter (\<lambda>x. \<not> is_number x) args) st
     = for_each check_same_dtype_body args st"
proof (induction args arbitrary: st)
  case Nil
  show ?case by simp
next
  case (Cons x xs)
  obtain f s where st: "st = (f, s)" by (cases st)
  show ?case
  proof (cases x)
    case (Number n)
    with Cons.IH st show ?thesis by (simp add: is_number_def)
  qed (use Cons.IH st in \<open>simp_all add: is_number_def split: sum.splits\<close>)
qed

lemma get_higher_dtype_accumulate:
  "recognized_dtype d \<Longrightarrow> \<forall>a. acc = Some a \<longrightarrow> recognized_dtype a \<Longrightarrow>
   get_higher_dtype (of_optional acc) (Dtype d) =
     Inr (Some (case acc of None \<Rightarrow> d | Some a \<Rightarrow> higher_dtype a d))"
proof (cases acc)
  case None
  then show ?thesis
    using get_higher_dtype_absent(1) [of "Dtype d" d] by (simp add: of_optional_def)
next
  case (Some a)
  assume "recognized_dtype d" and "\<forall>a. acc = Some a \<longrightarrow> recognized_dtype a"
  with Some show ?thesis
    using get_higher_dtype_extracted [of "Dtype a" a "Dtype d" d] by (simp add: of_optional_def)
qed

lemma as_complex_dtype_is_complex:
  "is_float_dtype d \<or> is_complex_dtype d \<Longrightarrow> is_complex_dtype (as_complex_dtype d)"
  by (cases d) (simp_all add: dtype_table_defs)

lemma higher_dtype_is_complex:
  "is_complex_dtype a \<Longrightarrow> is_complex_dtype d \<Longrightarrow> is_complex_dtype (higher_dtype a d)"
  by (cases a; cases d) (simp_all add: dtype_table_defs higher_dtype_def bucket_of_simps)

lemma complex_accumulate:
  assumes "is_complex_dtype d" and "\<forall>a. acc = Some a \<longrightarrow> is_complex_dtype a"
  shows "get_higher_dtype (of_optional acc) (Dtype d) =
           Inr (Some (case acc of None \<Rightarrow> d | Some a \<Rightarrow> higher_dtype a d))"
    and "is_complex_dtype (case acc of None \<Rightarrow> d | Some a \<Rightarrow> higher_dtype a d)"
proof -
  from assms have "recognized_dtype d" and "\<forall>a. acc = Some a \<longrightarrow> recognized_dtype a"
    by (simp_all add: recognized_dtype_def)
  then show "get_higher_dtype (of_optional acc) (Dtype d) =
           Inr (Some (case acc of None \<Rightarrow> d | Some a \<Rightarrow> higher_dtype a d))"
    by (rule get_higher_dtype_accumulate)
  from assms show "is_complex_dtype (case acc of None \<Rightarrow> d | Some a \<Rightarrow> higher_dtype a d)"
    by (cases acc) (simp_all add: higher_dtype_is_complex)
qed

lemma float_as_complex_mapped:
  "is_float_dtype d \<or> is_complex_dtype d \<Longrightarrow>
     (if True \<and> is_float_dtype d then corresponding_complex_dtype d else Inr d)
       = Inr (as_complex_dtype d)"
  by (cases d)
     (simp_all add: dtype_table_defs corresponding_complex_dtype_def subscript_def
        real_to_complex_dtype_map_def)

lemma float_or_complex_tensors_Cons:
  "float_or_complex_tensors (TensorLike t # xs) =
     (if is_float_dtype (dtype t) \<or> is_complex_dtype (dtype t)
      then t # float_or_complex_tensors xs else float_or_complex_tensors xs)"
  "float_or_complex_tensors (Number n # xs) = float_or_complex_tensors xs"
  "float_or_complex_tensors (PyNone # xs) = float_or_complex_tensors xs"
  "float_or_complex_tensors (Dtype d # xs) = float_or_complex_tensors xs"
  "float_or_complex_tensors (Object s # xs) = float_or_complex_tensors xs"
  "float_or_complex_tensors [] = []"
  by (simp_all add: float_or_complex_tensors_def)

lemma complex_scan_loop_by_rank:
  "\<forall>a. z = Some a \<longrightarrow> is_complex_dtype a \<Longrightarrow> \<forall>a. p = Some a \<longrightarrow> is_complex_dtype a \<Longrightarrow>
   for_each (find_highest_dtype_filtered_body (\<lambda>x. is_float_dtype x \<or> is_complex_dtype x)
               True False) args (z, p) =
     Inr (foldl (\<lambda>acc d. Some (case acc of None \<Rightarrow> d | Some a \<Rightarrow> higher_dtype a d)) z
            (map (\<lambda>t. as_complex_dtype (dtype t))
               (filter (\<lambda>t. ndim t = 0) (float_or_complex_tensors args))),
          foldl (\<lambda>acc d. Some (case acc of None \<Rightarrow> d | Some a \<Rightarrow> higher_dtype a d)) p
            (map (\<lambda>t. as_complex_dtype (dtype t))
               (filter (\<lambda>t. 0 < ndim t) (float_or_complex_tensors args))))"
proof (induction args arbitrary: z p)
  case Nil
  show ?case by (simp add: float_or_complex_tensors_Cons)
next
  case (Cons x xs)
  show ?case
  proof (cases x)
    case (TensorLike t)
    show ?thesis
    proof (cases "is_float_dtype (dtype t) \<or> is_complex_dtype (dtype t)")
      case True
      let ?d = "as_complex_dtype (dtype t)"
      from float_as_complex_mapped [OF True]
      have m: "(if is_float_dtype (dtype t) then corresponding_complex_dtype (dtype t)
                else Inr (dtype t)) = Inr ?d"
        by simp
      have c: "is_complex_dtype ?d" using True by (rule as_complex_dtype_is_complex)
      show ?thesis
      proof (cases "ndim t = 0")
        case zero: True
        let ?z = "Some (case z of None \<Rightarrow> ?d | Some a \<Rightarrow> higher_dtype a ?d)"
        have "\<forall>a. ?z = Some a \<longrightarrow> is_complex_dtype a"
          using complex_accumulate(2) [OF c Cons.prems(1)] by simp
        from Cons.IH [OF this Cons.prems(2)] True TensorLike zero show ?thesis
          by (simp add: float_or_complex_tensors_Cons m and_then_def
                complex_accumulate(1) [OF c Cons.prems(1)])
      next
        case pos: False
        let ?p = "Some (case p of None \<Rightarrow> ?d | Some a \<Rightarrow> higher_dtype a ?d)"
        have "\<forall>a. ?p = Some a \<longrightarrow> is_complex_dtype a"
          using complex_accumulate(2) [OF c Cons.prems(2)] by simp
        from Cons.IH [OF Cons.prems(1) this] True TensorLike pos show ?thesis
          by (simp add: float_or_complex_tensors_Cons m and_then_def
                complex_accumulate(1) [OF c Cons.prems(2)])
      qed
    next
      case False
      with TensorLike Cons.IH [OF Cons.prems] show ?thesis
        by (simp add: float_or_complex_tensors_Cons)
    qed
  qed (use Cons.IH [OF Cons.prems] in \<open>simp_all add: float_or_complex_tensors_Cons\<close>)
qed

lemma complex_scan_loop_all_equal:
  "\<forall>a. p = Some a \<longrightarrow> is_complex_dtype a \<Longrightarrow>
   for_each (find_highest_dtype_filtered_body (\<lambda>x. is_float_dtype x \<or> is_complex_dtype x)
               True True) args (z, p) =
     Inr (z,
          foldl (\<lambda>acc d. Some (case acc of None \<Rightarrow> d | Some a \<Rightarrow> higher_dtype a d)) p
            (map (\<lambda>t. as_complex_dtype (dtype t)) (float_or_complex_tensors args)))"
proof (induction args arbitrary: p)
  case Nil
  show ?case by (simp add: float_or_complex_tensors_Cons)
next
  case (Cons x xs)
  show ?case
  proof (cases x)
    case (TensorLike t)
    show ?thesis
    proof (cases "is_float_dtype (dtype t) \<or> is_complex_dtype (dtype t)")
      case True
      let ?d = "as_complex_dtype (dtype t)"
      from float_as_complex_mapped [OF True]
      have m: "(if is_float_dtype (dtype t) then corresponding_complex_dtype (dtype t)
                else Inr (dtype t)) = Inr ?d"
        by simp
      have c: "is_complex_dtype ?d" using True by (rule as_complex_dtype_is_complex)
      let ?p = "Some (case p of None \<Rightarrow> ?d | Some a \<Rightarrow> higher_dtype a ?d)"
      have "\<forall>a. ?p = Some a \<longrightarrow> is_complex_dtype a"
        using complex_accumulate(2) [OF c Cons.prems] by simp
      from Cons.IH [OF this] True TensorLike show ?thesis
        by (simp add: float_or_complex_tensors_Cons m and_then_def
              complex_accumulate(1) [OF c Cons.prems])
    next
      case False
      with TensorLike Cons.IH [OF Cons.prems] show ?thesis
        by (simp add: float_or_complex_tensors_Cons)
    qed
  qed (use Cons.IH [OF Cons.prems] in \<open>simp_all add: float_or_complex_tensors_Cons\<close>)
qed

lemma complex_scan_preferring_rank:
  "find_highest_dtype_filtered args (\<lambda>x. is_float_dtype x \<or> is_complex_dtype x) True False
     = Inr (scan_preferring_rank (float_or_complex_tensors args))"
  by (simp add: find_highest_dtype_filtered_def complex_scan_loop_by_rank and_then_def
        scan_preferring_rank_def highest_dtype_def split: option.splits)

lemma complex_scan_ignoring_rank:
  "find_highest_dtype_filtered args (\<lambda>x. is_float_dtype x \<or> is_complex_dtype x) True True
     = Inr (scan_ignoring_rank (float_or_complex_tensors args))"
  by (simp add: find_highest_dtype_filtered_def complex_scan_loop_all_equal and_then_def
        scan_ignoring_rank_def highest_dtype_def)

lemma has_one_plus_dim_complex_tensor_iff:
  "has_one_plus_dim_complex_tensor args \<longleftrightarrow>
     (\<exists>t\<in>set (float_or_complex_tensors args). 0 < ndim t \<and> is_complex_dtype (dtype t))"
proof (induction args)
  case Nil
  show ?case by (simp add: float_or_complex_tensors_Cons)
next
  case (Cons x xs)
  then show ?case
    by (cases x) (auto simp: float_or_complex_tensors_Cons)
qed

lemma float_or_complex_tensors_without_None:
  "float_or_complex_tensors (filter (\<lambda>x. x \<noteq> PyNone) args) = float_or_complex_tensors args"
proof (induction args)
  case Nil
  show ?case by simp
next
  case (Cons x xs)
  then show ?case by (cases x) (simp_all add: float_or_complex_tensors_Cons)
qed

lemma get_computation_dtype_table:
  "get_computation_dtype d =
     (if d = torch_float16 \<or> d = torch_bfloat16 then torch_float32
      else if d = torch_complex32 then torch_complex64
      else d)"
  by (cases d) (simp_all add: get_computation_dtype_def computation_dtype_map_def)

lemma apply_type_promotion_kind_table:
  "apply_type_promotion_kind cfg DEFAULT r = Inr (r, r)"
  "apply_type_promotion_kind cfg OP_MATH r = Inr (get_computation_dtype r, r)"
  "apply_type_promotion_kind cfg INT_TO_FLOAT r =
     (if is_integer_dtype r \<or> is_boolean_dtype r
      then Inr (get_computation_dtype (get_default_dtype cfg), get_default_dtype cfg)
      else Inr (get_computation_dtype r, r))"
  "apply_type_promotion_kind cfg COMPLEX_TO_FLOAT r =
     (if is_complex_dtype r
      then and_then (corresponding_real_dtype r) (\<lambda>f. Inr (get_computation_dtype r, f))
      else Inr (get_computation_dtype r, r))"
  "apply_type_promotion_kind cfg BOOL_TO_LONG r =
     (if is_boolean_dtype r then Inr (torch_int64, torch_int64) else Inr (r, r))"
  "apply_type_promotion_kind cfg ALWAYS_BOOL r = Inr (r, torch_bool)"
  by (simp_all add: apply_type_promotion_kind_def Let_def)

lemma canonicalize_dim_cases:
  "0 \<le> rank \<Longrightarrow>
     canonicalize_dim rank idx =
       (if idx < 0 \<and> - max 1 rank \<le> idx then Inr (idx + max 1 rank)
        else if 0 \<le> idx \<and> idx \<le> max 1 rank then Inr idx
        else Inl (ValueError ''Received out of bounds index {0} for tensor of rank {1}!''))"
  by (auto simp: canonicalize_dim_def Let_def max_def)

section \<open>Properties\<close>

subsection \<open>Dtype classification\<close>

text \<open>
  C2, as the spec states it: \<open>type_to_dtype\<close> maps \<open>float\<close> to the process-wide
  configurable default float dtype, for every value of that configuration. It does not:
  \<open>_type_to_dtype_map\<close> is a fixed table, so with the default dtype set to
  \<open>torch.float32\<close> the result for \<open>float\<close> is still \<open>torch.float64\<close>.
\<close>

theorem type_to_dtype_ignores_default:
  "type_to_dtype py_float \<noteq> Inr (get_default_dtype \<lparr>default_dtype = torch_float32\<rparr>)"
  by (simp add: type_to_dtype_def subscript_def type_to_dtype_map_def get_default_dtype_def)

text \<open>
  C2, amended: \<open>type_to_dtype\<close> maps \<open>bool\<close> to \<open>torch.bool\<close>, \<open>int\<close> to \<open>torch.int64\<close>,
  \<open>float\<close> to \<open>torch.float64\<close> and \<open>complex\<close> to \<open>torch.complex128\<close>; it takes no
  configuration, so this is so whatever the process-wide default dtype is.
\<close>

theorem type_to_dtype_fixed_table:
  "type_to_dtype py_bool = Inr torch_bool
   \<and> type_to_dtype py_int = Inr torch_int64
   \<and> type_to_dtype py_float = Inr torch_float64
   \<and> type_to_dtype py_complex = Inr torch_complex128"
  by (simp add: type_to_dtype_def subscript_def type_to_dtype_map_def)

text \<open>
  C7: \<open>can_safe_cast_to\<close> scans complex, float, integer, boolean, testing \<open>cast_to\<close> before
  \<open>cast_from\<close>; on every pair of recognized dtypes it returns a value, and that value is
  true exactly when the category of \<open>cast_from\<close> is not strictly higher than the category
  of \<open>cast_to\<close> under \<open>bool < int < float < complex\<close>.
\<close>

theorem can_safe_cast_to_category_order:
  "recognized_dtype cast_to \<Longrightarrow> recognized_dtype cast_from \<Longrightarrow>
   can_safe_cast_to cast_to cast_from =
     Inr (\<not> category_rank (dtype_category cast_to) < category_rank (dtype_category cast_from))"
  by (cases cast_to; cases cast_from)
     (simp_all add: can_safe_cast_to_def can_safe_cast_to_fns_def dtype_category_def
        recognized_dtype_def dtype_table_defs)

theorem can_safe_cast_to_category_order_witness:
  "recognized_dtype torch_float32 \<and> recognized_dtype torch_complex64 \<and> recognized_dtype torch_int8
   \<and> can_safe_cast_to torch_float32 torch_complex64 = Inr False
   \<and> can_safe_cast_to torch_float32 torch_int8 = Inr True
   \<and> can_safe_cast_to torch_float32 torch_float32 = Inr True"
proof -
  have r: "recognized_dtype torch_float32" "recognized_dtype torch_complex64"
    "recognized_dtype torch_int8"
    by (simp_all add: recognized_dtype_def dtype_table_defs)
  from can_safe_cast_to_category_order [OF r(1) r(2)]
    can_safe_cast_to_category_order [OF r(1) r(3)]
    can_safe_cast_to_category_order [OF r(1) r(1)] r
  show ?thesis by (simp add: dtype_category_def dtype_table_defs)
qed

text \<open>
  C8: for every complex dtype \<open>c\<close> (\<open>complex32\<close>, \<open>complex64\<close>, \<open>complex128\<close>),
  \<open>corresponding_complex_dtype(corresponding_real_dtype(c))\<close> returns \<open>c\<close>.
\<close>

theorem corresponding_dtype_round_trip:
  "c \<in> {torch_complex32, torch_complex64, torch_complex128} \<Longrightarrow>
     and_then (corresponding_real_dtype c) corresponding_complex_dtype = Inr c"
  by (auto simp: and_then_def corresponding_real_dtype_def corresponding_complex_dtype_def
        subscript_def complex_to_real_dtype_map_def real_to_complex_dtype_map_def)

theorem corresponding_dtype_round_trip_witness:
  "torch_complex64 \<in> {torch_complex32, torch_complex64, torch_complex128}
   \<and> and_then (corresponding_real_dtype torch_complex64) corresponding_complex_dtype
       = Inr torch_complex64"
  using corresponding_dtype_round_trip [of torch_complex64] by simp

text \<open>
  C4: for inputs that are dtypes, tensor-likes or numbers, with extracted dtypes \<open>d1\<close> and
  \<open>d2\<close> that lie in the eleven-bucket order, \<open>get_higher_dtype\<close> returns \<open>d1\<close> when
  \<open>d1 = d2\<close>, the first dtype of the next bucket when the two differ inside one bucket
  (which happens only for \<open>uint8\<close> with \<open>int8\<close>, giving \<open>int16\<close>, and for \<open>float16\<close>
  with \<open>bfloat16\<close>, giving \<open>float32\<close>), and otherwise the one in the higher bucket. Two
  equal extracted dtypes are returned as they are, and with one side absent the extracted
  dtype of the other side is returned, whether a table lists the dtype or not; with both
  absent the result is \<open>None\<close>.
\<close>

theorem get_higher_dtype_bucket_order:
  "(extract_dtype a = Inr (Some d1) \<and> extract_dtype b = Inr (Some d2)
      \<and> d1 \<in> set (concat ordered_datatypes) \<and> d2 \<in> set (concat ordered_datatypes) \<longrightarrow>
      get_higher_dtype a b =
        Inr (Some (if d1 = d2 then d1
                   else if bucket_of d1 = bucket_of d2
                     then hd (ordered_datatypes ! Suc (bucket_of d1))
                   else if bucket_of d1 < bucket_of d2 then d2
                   else d1))
      \<and> (d1 \<noteq> d2 \<and> bucket_of d1 = bucket_of d2 \<longrightarrow>
            ({d1, d2} = {torch_uint8, torch_int8}
               \<and> get_higher_dtype a b = Inr (Some torch_int16))
            \<or> ({d1, d2} = {torch_float16, torch_bfloat16}
               \<and> get_higher_dtype a b = Inr (Some torch_float32))))
   \<and> (extract_dtype a = Inr (Some d1) \<and> extract_dtype b = Inr (Some d1) \<longrightarrow>
        get_higher_dtype a b = Inr (Some d1))
   \<and> (extract_dtype a = Inr (Some d1) \<longrightarrow>
        get_higher_dtype PyNone a = Inr (Some d1) \<and> get_higher_dtype a PyNone = Inr (Some d1))
   \<and> get_higher_dtype PyNone PyNone = Inr None"
proof -
  have none: "get_higher_dtype PyNone PyNone = Inr None"
    by (simp add: get_higher_dtype_def and_then_def)
  have equal: "get_higher_dtype a b = Inr (Some d1)"
    if ex: "extract_dtype a = Inr (Some d1)" "extract_dtype b = Inr (Some d1)"
    using ex extract_dtype_SomeD [OF ex(1)] extract_dtype_SomeD [OF ex(2)]
    by (simp add: get_higher_dtype_def and_then_def)
  have ordered: "get_higher_dtype a b = Inr (Some (higher_dtype d1 d2))"
    if "extract_dtype a = Inr (Some d1)" "extract_dtype b = Inr (Some d2)"
      "d1 \<in> set (concat ordered_datatypes)" "d2 \<in> set (concat ordered_datatypes)"
    using that get_higher_dtype_extracted [of a d1 b d2]
    by (simp only: recognized_dtype_iff_bucket)
  have paired: "({d1, d2} = {torch_uint8, torch_int8}
                   \<and> get_higher_dtype a b = Inr (Some torch_int16))
                \<or> ({d1, d2} = {torch_float16, torch_bfloat16}
                   \<and> get_higher_dtype a b = Inr (Some torch_float32))"
    if ex: "extract_dtype a = Inr (Some d1)" "extract_dtype b = Inr (Some d2)"
      and known: "d1 \<in> set (concat ordered_datatypes)" "d2 \<in> set (concat ordered_datatypes)"
      and ne: "d1 \<noteq> d2" and same: "bucket_of d1 = bucket_of d2"
  proof -
    have res: "get_higher_dtype a b = Inr (Some (hd (ordered_datatypes ! Suc (bucket_of d1))))"
      using ordered [OF ex known] ne same by (simp add: higher_dtype_def)
    from known have "recognized_dtype d1" "recognized_dtype d2"
      by (simp_all only: recognized_dtype_iff_bucket)
    from same_bucket_cases [OF ne same this] show ?thesis
    proof
      assume s: "{d1, d2} = {torch_uint8, torch_int8}"
      then have "d1 = torch_uint8 \<or> d1 = torch_int8" by (auto simp: doubleton_eq_iff)
      then have "hd (ordered_datatypes ! Suc (bucket_of d1)) = torch_int16"
        by (auto simp: bucket_of_simps ordered_datatypes_def)
      with res s show ?thesis by simp
    next
      assume s: "{d1, d2} = {torch_float16, torch_bfloat16}"
      then have "d1 = torch_float16 \<or> d1 = torch_bfloat16" by (auto simp: doubleton_eq_iff)
      then have "hd (ordered_datatypes ! Suc (bucket_of d1)) = torch_float32"
        by (auto simp: bucket_of_simps ordered_datatypes_def)
      with res s show ?thesis by simp
    qed
  qed
  show ?thesis
    using none equal paired ordered get_higher_dtype_absent [of a d1]
    unfolding higher_dtype_def by blast
qed

theorem get_higher_dtype_bucket_order_witness:
  "torch_uint8 \<in> set (concat ordered_datatypes) \<and> torch_int8 \<in> set (concat ordered_datatypes)
   \<and> get_higher_dtype (Dtype torch_uint8) (Dtype torch_int8) = Inr (Some torch_int16)
   \<and> get_higher_dtype PyNone (Dtype torch_uint8) = Inr (Some torch_uint8)
   \<and> get_higher_dtype (Dtype torch_uint8) PyNone = Inr (Some torch_uint8)"
  using get_higher_dtype_bucket_order
          [of "Dtype torch_uint8" torch_uint8 "Dtype torch_int8" torch_int8]
  by (simp add: bucket_of_simps doubleton_eq_iff ordered_datatypes_def)

subsection \<open>Shape utilities\<close>

text \<open>
  C5 asks that \<open>canonicalize_dim(rank=5, idx=5)\<close> fail with an out-of-bounds error. The
  last test of the source is \<open>_idx > _rank\<close>, so an index equal to the rank is returned.
\<close>

theorem canonicalize_dim_rank_5_idx_5:
  "canonicalize_dim 5 5 = Inr 5"
  by (simp add: canonicalize_dim_def)

subsection \<open>Elementwise type promotion\<close>

text \<open>
  C3 asks that \<open>BOOL_TO_LONG\<close> return the computation dtype mapped from the result dtype
  when the result dtype is not boolean, as the docstring of \<open>elementwise_dtypes\<close> says. The
  source returns the result dtype twice: a lone \<open>float16\<close> tensor of shape \<open>(2,)\<close> yields
  \<open>(float16, float16)\<close>, where the mapping would give \<open>(float32, float16)\<close>.
\<close>

theorem elementwise_dtypes_bool_to_long_float16:
  "elementwise_dtypes \<lparr>default_dtype = torch_float32\<rparr>
     [TensorLike \<lparr>shape = [2], strides = [1], dtype = torch_float16,
        device = \<lparr>device_type = ''cpu'', device_index = None\<rparr>\<rparr>] BOOL_TO_LONG
   = Inr (torch_float16, torch_float16)
   \<and> get_computation_dtype torch_float16 = torch_float32"
  by code_simp

subsection \<open>Tensor metadata comparison\<close>

text \<open>
  C10: \<open>compare_tensor_meta\<close> compares the shapes position by position up to the shorter
  rank. When the two shapes agree on their common prefix the shape check raises nothing,
  whatever the ranks, and the outcome is that of the dtype comparison followed by the
  device comparison; with equal dtypes and devices the call succeeds.
\<close>

theorem compare_tensor_meta_common_prefix:
  "take (min (length (shape a)) (length (shape b))) (shape a)
     = take (min (length (shape a)) (length (shape b))) (shape b) \<Longrightarrow>
   compare_tensor_meta (TensorLike a) (TensorLike b) =
     (if dtype a \<noteq> dtype b then Inl (AssertionError ''Dtypes {0} and {1} are not equal!'')
      else if device a \<noteq> device b
        then Inl (AssertionError ''Devices {0} and {1} are not equal!'')
      else Inr ())"
  by (simp add: compare_tensor_meta_def and_then_def compare_shapes_common_prefix)

theorem compare_tensor_meta_common_prefix_witness:
  "compare_tensor_meta
     (TensorLike \<lparr>shape = [2, 3], strides = [3, 1], dtype = torch_float32,
        device = \<lparr>device_type = ''cpu'', device_index = None\<rparr>\<rparr>)
     (TensorLike \<lparr>shape = [2, 3, 4], strides = [12, 4, 1], dtype = torch_float32,
        device = \<lparr>device_type = ''cpu'', device_index = None\<rparr>\<rparr>) = Inr ()"
  using compare_tensor_meta_common_prefix
    [of "\<lparr>shape = [2, 3], strides = [3, 1], dtype = torch_float32,
           device = \<lparr>device_type = ''cpu'', device_index = None\<rparr>\<rparr>"
        "\<lparr>shape = [2, 3, 4], strides = [12, 4, 1], dtype = torch_float32,
           device = \<lparr>device_type = ''cpu'', device_index = None\<rparr>\<rparr>"]
  by simp

subsection \<open>Operand compatibility checks\<close>

text \<open>
  C6: with at most one argument \<open>check_same_device\<close> returns without raising. With two or
  more it raises exactly when some argument is neither a number nor a tensor-like, or some
  tensor-like that is not exempt has a device other than that of the first tensor-like
  that is not exempt; the exempt ones are, when \<open>allow_cpu_scalar_tensors\<close> holds, the
  tensor-likes of rank zero whose device type is \<open>cpu\<close>. Numbers and exempt tensor-likes
  neither set the expected device nor raise.
\<close>

theorem check_same_device_fails_iff:
  "(length args \<le> 1 \<longrightarrow> check_same_device args allow = Inr ())
   \<and> (2 \<le> length args \<longrightarrow>
        (isl (check_same_device args allow) \<longleftrightarrow>
           (\<exists>x\<in>set args. \<not> is_number_or_tensor x)
           \<or> (\<exists>t\<in>set (non_exempt_tensors allow args).
                 device t \<noteq> device (hd (non_exempt_tensors allow args)))))"
proof -
  have "isl (and_then m (\<lambda>_. Inr ())) = isl m" for m :: "error + torch_device option"
    by (cases m) (simp_all add: and_then_def)
  then show ?thesis
    by (simp add: check_same_device_def check_same_device_loop_start)
qed

theorem check_same_device_fails_iff_witness:
  "check_same_device [Object ''str''] False = Inr ()
   \<and> \<not> isl (check_same_device
        [TensorLike \<lparr>shape = [], strides = [], dtype = torch_float32,
           device = \<lparr>device_type = ''cpu'', device_index = None\<rparr>\<rparr>,
         Number (PyInt 1),
         TensorLike \<lparr>shape = [2], strides = [1], dtype = torch_float32,
           device = \<lparr>device_type = ''cuda'', device_index = Some 0\<rparr>\<rparr>] True)
   \<and> isl (check_same_device
        [TensorLike \<lparr>shape = [], strides = [], dtype = torch_float32,
           device = \<lparr>device_type = ''cpu'', device_index = None\<rparr>\<rparr>,
         Number (PyInt 1),
         TensorLike \<lparr>shape = [2], strides = [1], dtype = torch_float32,
           device = \<lparr>device_type = ''cuda'', device_index = Some 0\<rparr>\<rparr>] False)"
  using check_same_device_fails_iff [of "[Object ''str'']" False]
    check_same_device_fails_iff
      [of "[TensorLike \<lparr>shape = [], strides = [], dtype = torch_float32,
              device = \<lparr>device_type = ''cpu'', device_index = None\<rparr>\<rparr>,
            Number (PyInt 1),
            TensorLike \<lparr>shape = [2], strides = [1], dtype = torch_float32,
              device = \<lparr>device_type = ''cuda'', device_index = Some 0\<rparr>\<rparr>]" True]
    check_same_device_fails_iff
      [of "[TensorLike \<lparr>shape = [], strides = [], dtype = torch_float32,
              device = \<lparr>device_type = ''cpu'', device_index = None\<rparr>\<rparr>,
            Number (PyInt 1),
            TensorLike \<lparr>shape = [2], strides = [1], dtype = torch_float32,
              device = \<lparr>device_type = ''cuda'', device_index = Some 0\<rparr>\<rparr>]" False]
  by (simp add: non_exempt_tensors_def is_number_or_tensor_def is_cpu_scalar_tensor_def
        ndim_def)

text \<open>
  C9, as the spec states it: \<open>check_same_dtype\<close> fails exactly when some argument is
  neither a number nor a tensor-like, or some tensor-like's dtype differs from the first
  tensor-like's dtype, or some tensor-like's type kind differs from the first
  tensor-like's. It also fails on a single tensor-like whose dtype no table lists, such as
  \<open>torch.quint8\<close>: the only argument is a tensor-like and is itself the first one, so none
  of the three conditions holds, and \<open>dtype_to_type\<close> raises \<open>ValueError\<close>.
\<close>

theorem check_same_dtype_unlisted_dtype:
  "check_same_dtype
     [TensorLike \<lparr>shape = [2], strides = [1], dtype = torch_unlisted ''quint8'',
        device = \<lparr>device_type = ''cpu'', device_index = None\<rparr>\<rparr>]
     = Inl (ValueError ''Invalid dtype!'')
   \<and> is_number_or_tensor
       (TensorLike \<lparr>shape = [2], strides = [1], dtype = torch_unlisted ''quint8'',
          device = \<lparr>device_type = ''cpu'', device_index = None\<rparr>\<rparr>)
   \<and> tensors_of
       [TensorLike \<lparr>shape = [2], strides = [1], dtype = torch_unlisted ''quint8'',
          device = \<lparr>device_type = ''cpu'', device_index = None\<rparr>\<rparr>]
     = [\<lparr>shape = [2], strides = [1], dtype = torch_unlisted ''quint8'',
          device = \<lparr>device_type = ''cpu'', device_index = None\<rparr>\<rparr>]"
  by (simp add: check_same_dtype_def and_then_def dtype_to_type_def dtype_table_defs
        is_number_or_tensor_def)

text \<open>
  C9, amended: \<open>check_same_dtype\<close> fails exactly when some argument is neither a number nor
  a tensor-like, or some tensor-like's dtype differs from the first tensor-like's dtype,
  or some tensor-like's type kind differs from the first tensor-like's, or some
  tensor-like's dtype is not a recognized dtype. Numbers are skipped: removing them from
  the arguments leaves the outcome as it is.
\<close>

theorem check_same_dtype_fails_iff:
  "(isl (check_same_dtype args) \<longleftrightarrow>
      (\<exists>x\<in>set args. \<not> is_number_or_tensor x)
      \<or> (\<exists>t\<in>set (tensors_of args). dtype t \<noteq> dtype (hd (tensors_of args)))
      \<or> (\<exists>t\<in>set (tensors_of args).
            dtype_to_type (dtype t) \<noteq> dtype_to_type (dtype (hd (tensors_of args))))
      \<or> (\<exists>t\<in>set (tensors_of args). \<not> recognized_dtype (dtype t)))
   \<and> check_same_dtype (filter (\<lambda>x. \<not> is_number x) args) = check_same_dtype args"
proof -
  let ?ts = "tensors_of args"
  have isl: "isl (and_then m (\<lambda>_. Inr ())) = isl m"
    for m :: "error + (torch_dtype option \<times> py_type option)"
    by (cases m) (simp_all add: and_then_def)
  have kind: "(\<exists>t\<in>set ?ts. dtype_to_type (dtype t) \<noteq> dtype_to_type (dtype (hd ?ts)))
        \<Longrightarrow> (\<exists>t\<in>set ?ts. dtype t \<noteq> dtype (hd ?ts))"
    by (metis (full_types))
  have first: "?ts \<noteq> [] \<and> \<not> recognized_dtype (dtype (hd ?ts))
        \<Longrightarrow> (\<exists>t\<in>set ?ts. \<not> recognized_dtype (dtype t))"
    by (metis hd_in_set)
  have some: "(\<exists>t\<in>set ?ts. \<not> recognized_dtype (dtype t))
        \<Longrightarrow> (\<exists>t\<in>set ?ts. dtype t \<noteq> dtype (hd ?ts))
            \<or> (?ts \<noteq> [] \<and> \<not> recognized_dtype (dtype (hd ?ts)))"
    by (metis empty_iff empty_set)
  from kind first some show ?thesis
    unfolding check_same_dtype_def isl check_same_dtype_loop_start
      check_same_dtype_loop_skips_numbers
    by blast
qed

theorem check_same_dtype_fails_iff_witness:
  "isl (check_same_dtype
        [Number (PyFloat 1),
         TensorLike \<lparr>shape = [2], strides = [1], dtype = torch_int32,
           device = \<lparr>device_type = ''cpu'', device_index = None\<rparr>\<rparr>,
         TensorLike \<lparr>shape = [2], strides = [1], dtype = torch_int64,
           device = \<lparr>device_type = ''cpu'', device_index = None\<rparr>\<rparr>])
   \<and> \<not> isl (check_same_dtype
        [Number (PyFloat 1),
         TensorLike \<lparr>shape = [2], strides = [1], dtype = torch_int32,
           device = \<lparr>device_type = ''cpu'', device_index = None\<rparr>\<rparr>,
         Number (PyComplex 1)])
   \<and> isl (check_same_dtype
        [TensorLike \<lparr>shape = [2], strides = [1], dtype = torch_unlisted ''quint8'',
           device = \<lparr>device_type = ''cpu'', device_index = None\<rparr>\<rparr>])"
  using check_same_dtype_fails_iff
      [of "[Number (PyFloat 1),
            TensorLike \<lparr>shape = [2], strides = [1], dtype = torch_int32,
              device = \<lparr>device_type = ''cpu'', device_index = None\<rparr>\<rparr>,
            TensorLike \<lparr>shape = [2], strides = [1], dtype = torch_int64,
              device = \<lparr>device_type = ''cpu'', device_index = None\<rparr>\<rparr>]"]
    check_same_dtype_fails_iff
      [of "[Number (PyFloat 1),
            TensorLike \<lparr>shape = [2], strides = [1], dtype = torch_int32,
              device = \<lparr>device_type = ''cpu'', device_index = None\<rparr>\<rparr>,
            Number (PyComplex 1)]"]
    check_same_dtype_fails_iff
      [of "[TensorLike \<lparr>shape = [2], strides = [1], dtype = torch_unlisted ''quint8'',
              device = \<lparr>device_type = ''cpu'', device_index = None\<rparr>\<rparr>]"]
  by (simp add: is_number_or_tensor_def recognized_dtype_def dtype_table_defs)

subsection \<open>The complex branch of the promotion\<close>

text \<open>
  C1: when the highest type kind of the operands is \<open>complex\<close>, the result dtype comes
  from the float-or-complex tensors, each float dtype taken as its corresponding complex
  dtype. If one of them has rank above zero and a complex dtype, the highest dtype among
  those of rank above zero is preferred to the highest among those of rank zero; if none
  has, the highest dtype among all of them is taken, whatever their rank. If there is no
  float-or-complex tensor, the result is the complex dtype corresponding to the default
  dtype.
\<close>

theorem elementwise_result_dtype_complex_branch:
  "highest_type_of (filter (\<lambda>x. x \<noteq> PyNone) args) = Inr py_complex \<Longrightarrow>
   elementwise_result_dtype cfg args =
     (case (if \<exists>t\<in>set (float_or_complex_tensors args). 0 < ndim t \<and> is_complex_dtype (dtype t)
            then scan_preferring_rank (float_or_complex_tensors args)
            else scan_ignoring_rank (float_or_complex_tensors args)) of
        Some d \<Rightarrow> Inr d
      | None \<Rightarrow> corresponding_complex_dtype (get_default_dtype cfg))"
proof -
  assume kind: "highest_type_of (filter (\<lambda>x. x \<noteq> PyNone) args) = Inr py_complex"
  let ?args = "filter (\<lambda>x. x \<noteq> PyNone) args"
  have flag: "has_one_plus_dim_complex_tensor ?args \<longleftrightarrow>
      (\<exists>t\<in>set (float_or_complex_tensors args). 0 < ndim t \<and> is_complex_dtype (dtype t))"
    by (simp only: has_one_plus_dim_complex_tensor_iff float_or_complex_tensors_without_None)
  show ?thesis
  proof (cases "has_one_plus_dim_complex_tensor ?args")
    case True
    with flag have c: "\<exists>t\<in>set (float_or_complex_tensors args).
        0 < ndim t \<and> is_complex_dtype (dtype t)"
      by blast
    from kind True have "elementwise_result_dtype cfg args =
        (case scan_preferring_rank (float_or_complex_tensors args) of
           Some d \<Rightarrow> Inr d
         | None \<Rightarrow> corresponding_complex_dtype (get_default_dtype cfg))"
      by (simp add: elementwise_result_dtype_def Let_def and_then_def
            complex_scan_preferring_rank float_or_complex_tensors_without_None
          split: option.splits)
    with c show ?thesis by (simp only: if_True)
  next
    case False
    with flag have c: "\<not> (\<exists>t\<in>set (float_or_complex_tensors args).
        0 < ndim t \<and> is_complex_dtype (dtype t))"
      by blast
    from kind False have "elementwise_result_dtype cfg args =
        (case scan_ignoring_rank (float_or_complex_tensors args) of
           Some d \<Rightarrow> Inr d
         | None \<Rightarrow> corresponding_complex_dtype (get_default_dtype cfg))"
      by (simp add: elementwise_result_dtype_def Let_def and_then_def
            complex_scan_ignoring_rank float_or_complex_tensors_without_None
          split: option.splits)
    with c show ?thesis by (simp only: if_False)
  qed
qed

theorem elementwise_result_dtype_complex_branch_witness:
  "highest_type_of (filter (\<lambda>x. x \<noteq> PyNone)
      [TensorLike \<lparr>shape = [], strides = [], dtype = torch_complex64,
         device = \<lparr>device_type = ''cpu'', device_index = None\<rparr>\<rparr>,
       PyNone,
       TensorLike \<lparr>shape = [], strides = [], dtype = torch_float64,
         device = \<lparr>device_type = ''cpu'', device_index = None\<rparr>\<rparr>,
       TensorLike \<lparr>shape = [3], strides = [1], dtype = torch_float16,
         device = \<lparr>device_type = ''cpu'', device_index = None\<rparr>\<rparr>]) = Inr py_complex
   \<and> elementwise_result_dtype \<lparr>default_dtype = torch_float32\<rparr>
      [TensorLike \<lparr>shape = [], strides = [], dtype = torch_complex64,
         device = \<lparr>device_type = ''cpu'', device_index = None\<rparr>\<rparr>,
       PyNone,
       TensorLike \<lparr>shape = [], strides = [], dtype = torch_float64,
         device = \<lparr>device_type = ''cpu'', device_index = None\<rparr>\<rparr>,
       TensorLike \<lparr>shape = [3], strides = [1], dtype = torch_float16,
         device = \<lparr>device_type = ''cpu'', device_index = None\<rparr>\<rparr>] = Inr torch_complex128"
proof -
  let ?args = "[TensorLike \<lparr>shape = [], strides = [], dtype = torch_complex64,
         device = \<lparr>device_type = ''cpu'', device_index = None\<rparr>\<rparr>,
       PyNone,
       TensorLike \<lparr>shape = [], strides = [], dtype = torch_float64,
         device = \<lparr>device_type = ''cpu'', device_index = None\<rparr>\<rparr>,
       TensorLike \<lparr>shape = [3], strides = [1], dtype = torch_float16,
         device = \<lparr>device_type = ''cpu'', device_index = None\<rparr>\<rparr>]"
  have h: "highest_type_of (filter (\<lambda>x. x \<noteq> PyNone) ?args) = Inr py_complex"
    by code_simp
  have r: "(case (if \<exists>t\<in>set (float_or_complex_tensors ?args). 0 < ndim t \<and> is_complex_dtype (dtype t)
            then scan_preferring_rank (float_or_complex_tensors ?args)
            else scan_ignoring_rank (float_or_complex_tensors ?args)) of
        Some d \<Rightarrow> Inr d
      | None \<Rightarrow> corresponding_complex_dtype (get_default_dtype \<lparr>default_dtype = torch_float32\<rparr>))
      = Inr torch_complex128"
    by code_simp
  from elementwise_result_dtype_complex_branch [OF h, of "\<lparr>default_dtype = torch_float32\<rparr>"] h r show ?thesis by simp
qed

end
